theory Spec2Isabelle
  imports Main "HOL-Library.Sublist"
begin

section \<open>The OAuth relay worker of \<^verbatim>\<open>src/index.ts\<close>\<close>

text \<open>
  The worker is one asynchronous function \<^verbatim>\<open>handleRequest(request, env)\<close> wrapped by
  the exported \<^verbatim>\<open>fetch\<close>, which turns every rejection into a 500 response. The handler
  talks to four collaborators: the key-value namespace \<^verbatim>\<open>env.hubspotOAuthStore\<close>, the
  provider's token endpoint (through the global \<^verbatim>\<open>fetch\<close>), the two imported helpers
  \<^verbatim>\<open>generateRandomId\<close> and \<^verbatim>\<open>getHTMLTemplate\<close>, and the runtime's \<^verbatim>\<open>URL\<close>,
  \<^verbatim>\<open>URLSearchParams\<close>, \<^verbatim>\<open>JSON\<close> and \<^verbatim>\<open>Response\<close> objects.

  Strings are byte strings (the UTF-8 encoding of the JavaScript string). A value that
  JavaScript throws is a value of type \<open>thrown\<close>; an operation that may throw returns
  \<open>thrown + 'a\<close>. Everything the handler mutates or observes is threaded through a
  \<open>World\<close> value, which also keeps a log of the effects in the order they were awaited.
\<close>

subsection \<open>Thrown values\<close>

text \<open>
  The catch-all of \<^verbatim>\<open>fetch\<close> only tells an \<^verbatim>\<open>Error\<close> instance (whose \<^verbatim>\<open>message\<close> it
  reads) from any other thrown value.
\<close>

datatype thrown = JsError string | JsNonError

subsection \<open>JSON values and \<^verbatim>\<open>JSON.stringify\<close>\<close>

text \<open>
  A JavaScript number as \<^verbatim>\<open>Number::toString\<close> sees it. \<open>Finite neg s n\<close> is the finite
  number with sign \<open>neg\<close> whose shortest decimal digits are those of \<open>s\<close> and whose value
  is \<open>s\<close> times 10 to the power \<open>n - k\<close>, for \<open>k\<close> the number of digits of \<open>s\<close>
  (zero when \<open>s = 0\<close>); \<open>NonFinite\<close> is an infinity or \<^verbatim>\<open>NaN\<close>.
\<close>

datatype js_number = Finite bool nat int | NonFinite

text \<open>
  A parsed JSON value; the members of an object are kept in the property order of the
  JavaScript object.
\<close>

datatype json =
    JNull
  | JBool bool
  | JNum js_number
  | JString string
  | JArray "json list"
  | JObject "(string \<times> json) list"

definition hex_lower :: "nat \<Rightarrow> char" where
  "hex_lower n = ''0123456789abcdef'' ! (n mod 16)"

definition hex_upper :: "nat \<Rightarrow> char" where
  "hex_upper n = ''0123456789ABCDEF'' ! (n mod 16)"

text \<open>The escape of one character inside a JSON string literal (\<^verbatim>\<open>QuoteJSONString\<close>).\<close>

definition json_escape_char :: "char \<Rightarrow> string" where
  "json_escape_char c =
     (let n = (of_char c :: nat) in
      if n = 8 then [CHR 0x5C, CHR ''b'']
      else if n = 9 then [CHR 0x5C, CHR ''t'']
      else if n = 10 then [CHR 0x5C, CHR ''n'']
      else if n = 12 then [CHR 0x5C, CHR ''f'']
      else if n = 13 then [CHR 0x5C, CHR ''r'']
      else if n = 34 then [CHR 0x5C, CHR 0x22]
      else if n = 92 then [CHR 0x5C, CHR 0x5C]
      else if n < 32 then [CHR 0x5C, CHR ''u'', CHR ''0'', CHR ''0'', hex_lower (n div 16), hex_lower n]
      else [c])"

definition json_quote :: "string \<Rightarrow> string" where
  "json_quote s = CHR 0x22 # concat (map json_escape_char s) @ [CHR 0x22]"

fun digits_of_nat :: "nat \<Rightarrow> string" where
  "digits_of_nat n =
     (if n < 10 then [''0123456789'' ! n]
      else digits_of_nat (n div 10) @ [''0123456789'' ! (n mod 10)])"

declare digits_of_nat.simps [simp del]

text \<open>
  \<^verbatim>\<open>Number::toString\<close> in radix 10: plain decimal digits while the decimal point lies within
  21 digits to the right or 6 to the left of the first digit, exponent notation otherwise.
\<close>

definition Number_toString :: "bool \<Rightarrow> nat \<Rightarrow> int \<Rightarrow> string" where
  "Number_toString neg s n =
     (if s = 0 then ''0''
      else
        (let ds = digits_of_nat s;
             k = int (length ds);
             e = n - 1;
             exponent = CHR ''e'' # (if e < 0 then CHR ''-'' else CHR ''+'') # digits_of_nat (nat \<bar>e\<bar>)
         in (if neg then ''-'' else [])
            @ (if k \<le> n \<and> n \<le> 21 then ds @ replicate (nat (n - k)) CHR ''0''
               else if 0 < n \<and> n \<le> 21 then take (nat n) ds @ ''.'' @ drop (nat n) ds
               else if - 6 < n \<and> n \<le> 0 then ''0.'' @ replicate (nat (- n)) CHR ''0'' @ ds
               else if k = 1 then ds @ exponent
               else take 1 ds @ ''.'' @ drop 1 ds @ exponent)))"

text \<open>\<^verbatim>\<open>JSON.stringify\<close> prints a number that is not finite as \<^verbatim>\<open>null\<close>.\<close>

fun json_number :: "js_number \<Rightarrow> string" where
  "json_number (Finite neg s n) = Number_toString neg s n"
| "json_number NonFinite = ''null''"

fun join_with :: "string \<Rightarrow> string list \<Rightarrow> string" where
  "join_with sep [] = []"
| "join_with sep [x] = x"
| "join_with sep (x # y # ys) = x @ sep @ join_with sep (y # ys)"

fun JSON_stringify :: "json \<Rightarrow> string" where
  "JSON_stringify JNull = ''null''"
| "JSON_stringify (JBool b) = (if b then ''true'' else ''false'')"
| "JSON_stringify (JNum x) = json_number x"
| "JSON_stringify (JString s) = json_quote s"
| "JSON_stringify (JArray xs) = ''['' @ join_with '','' (map JSON_stringify xs) @ '']''"
| "JSON_stringify (JObject kvs) =
     ''{'' @ join_with '','' (map (\<lambda>(k, v). json_quote k @ '':'' @ JSON_stringify v) kvs) @ ''}''"

subsection \<open>\<^verbatim>\<open>URLSearchParams\<close> and \<^verbatim>\<open>URL\<close>\<close>

text \<open>
  \<^verbatim>\<open>URLSearchParams.prototype.toString\<close> is the \<^verbatim>\<open>application/x-www-form-urlencoded\<close>
  serialiser: bytes outside the unreserved set are percent-encoded, a space becomes
  \<^verbatim>\<open>+\<close>, names and values are joined by \<^verbatim>\<open>=\<close> and the pairs by \<^verbatim>\<open>&\<close>.
\<close>

definition form_unreserved :: "char \<Rightarrow> bool" where
  "form_unreserved c \<longleftrightarrow>
     (let n = (of_char c :: nat) in
      (48 \<le> n \<and> n \<le> 57) \<or> (65 \<le> n \<and> n \<le> 90) \<or> (97 \<le> n \<and> n \<le> 122)
      \<or> n = 42 \<or> n = 45 \<or> n = 46 \<or> n = 95)"

definition form_encode_char :: "char \<Rightarrow> string" where
  "form_encode_char c =
     (if c = CHR '' '' then ''+''
      else if form_unreserved c then [c]
      else [CHR ''%'', hex_upper (of_char c div 16), hex_upper (of_char c)])"

definition form_encode :: "string \<Rightarrow> string" where
  "form_encode s = concat (map form_encode_char s)"

definition URLSearchParams_toString :: "(string \<times> string) list \<Rightarrow> string" where
  "URLSearchParams_toString ps =
     join_with ''&'' (map (\<lambda>(n, v). form_encode n @ ''='' @ form_encode v) ps)"

text \<open>
  A parsed URL, as far as the handler uses it: everything the serialiser prints before
  the query, the query (without its \<^verbatim>\<open>?\<close>) and the fragment (without its \<^verbatim>\<open>#\<close>).
\<close>

record URL =
  beforeQuery :: string
  query :: "string option"
  fragment :: "string option"

text \<open>
  The \<^verbatim>\<open>search\<close> setter: the empty string removes the query; otherwise one leading
  \<^verbatim>\<open>?\<close> is dropped and the rest becomes the query. (The setter's own percent-encoding
  leaves the alphabet of the form serialiser untouched.)
\<close>

definition URL_set_search :: "string \<Rightarrow> URL \<Rightarrow> URL" where
  "URL_set_search s u =
     (if s = [] then u\<lparr>query := None\<rparr>
      else if hd s = CHR ''?'' then u\<lparr>query := Some (tl s)\<rparr>
      else u\<lparr>query := Some s\<rparr>)"

definition URL_toString :: "URL \<Rightarrow> string" where
  "URL_toString u =
     beforeQuery u
     @ (case query u of None \<Rightarrow> [] | Some q \<Rightarrow> CHR ''?'' # q)
     @ (case fragment u of None \<Rightarrow> [] | Some f \<Rightarrow> CHR ''#'' # f)"

subsection \<open>Requests and responses\<close>

text \<open>
  The request after \<^verbatim>\<open>new URL(request.url)\<close>: its method, the path name and the decoded
  query pairs in order.
\<close>

record Request = req_method :: string
  pathname :: string
  searchParams :: "(string \<times> string) list"

text \<open>\<^verbatim>\<open>searchParams.get(name)\<close>: the first value under the name, or \<^verbatim>\<open>null\<close>.\<close>

definition searchParams_get :: "Request \<Rightarrow> string \<Rightarrow> string option" where
  "searchParams_get req name = map_of (searchParams req) name"

text \<open>The handler's tests \<^verbatim>\<open>!x\<close> on a \<^verbatim>\<open>string | null\<close>: true for \<^verbatim>\<open>null\<close> and for the empty string.\<close>

fun falsy :: "string option \<Rightarrow> bool" where
  "falsy None = True"
| "falsy (Some s) = (s = [])"

record Response =
  status :: nat
  body :: "string option"
  headers :: "(string \<times> string) list"

definition header_get :: "Response \<Rightarrow> string \<Rightarrow> string option" where
  "header_get r name = map_of (headers r) name"

definition null_body_status :: "nat \<Rightarrow> bool" where
  "null_body_status s \<longleftrightarrow> s = 101 \<or> s = 204 \<or> s = 205 \<or> s = 304"

text \<open>
  \<^verbatim>\<open>new Response(body, {status, headers})\<close>. The constructor throws a \<^verbatim>\<open>RangeError\<close> for a
  status outside 200..599. With a null-body status it throws a \<^verbatim>\<open>TypeError\<close> for a body
  that is not empty, and takes the empty string as no body at all. \<open>headers\<close> holds the
  headers given in the initialiser.
\<close>

definition new_Response :: "string option \<Rightarrow> nat \<Rightarrow> (string \<times> string) list \<Rightarrow> thrown + Response" where
  "new_Response b s hs =
     (if s < 200 \<or> 599 < s then
        Inl (JsError ''Responses may only be constructed with status codes in the range 200 to 599, inclusive.'')
      else if null_body_status s then
        (if b = None \<or> b = Some [] then Inr \<lparr>status = s, body = None, headers = hs\<rparr>
         else Inl (JsError ''Response with null body status (101, 204, 205, or 304) cannot have a body.''))
      else Inr \<lparr>status = s, body = b, headers = hs\<rparr>)"

text \<open>The response of the provider's token endpoint, with the outcome of its \<^verbatim>\<open>json()\<close>.\<close>

record FetchResponse =
  up_status :: nat
  up_statusText :: string
  up_text :: string
  up_json :: "thrown + json"

subsection \<open>Configuration, collaborators and the world\<close>

record Env =
  CLIENT_ID :: string
  CLIENT_SECRET :: string
  REDIRECT_URI :: string
  SCOPE :: string
  AUTHORIZE_ENDPOINT :: string
  TOKEN_ENDPOINT :: string
  PLUGIN_URI :: string

text \<open>
  What the handler is linked against. \<open>randomIds\<close> gives the result of the \<open>n\<close>-th call of
  \<^verbatim>\<open>generateRandomId\<close> and \<open>htmlTemplate\<close> is \<^verbatim>\<open>getHTMLTemplate\<close>: both modules are imported
  by \<^verbatim>\<open>index.ts\<close> and are parameters here. \<open>upstream\<close> answers a form-encoded POST (the
  endpoint and the form pairs before encoding) with a response or a rejection, and
  \<open>parseURL\<close> is the runtime's URL parser (\<open>Inl\<close>: \<^verbatim>\<open>new URL\<close> throws).
\<close>

record Platform =
  randomIds :: "nat \<Rightarrow> string"
  htmlTemplate :: "string \<Rightarrow> string"
  upstream :: "string \<Rightarrow> (string \<times> string) list \<Rightarrow> thrown + FetchResponse"
  parseURL :: "string \<Rightarrow> thrown + URL"

datatype event =
    KVGet string
  | KVPut string string nat
  | KVDelete string
  | Fetch string "(string \<times> string) list"

text \<open>
  The mutable world: the key-value namespace (each entry with the time, in seconds, at
  which it expires), the current time, the number of identifiers drawn so far and the
  log of effects. The namespace is a single consistent map whose operations always
  succeed; time does not pass while one request is handled, and is moved between
  requests by updating \<open>clock\<close>.
\<close>

record World =
  store :: "string \<rightharpoonup> string \<times> nat"
  clock :: nat
  idNext :: nat
  trace :: "event list"

text \<open>\<^verbatim>\<open>store.get(key)\<close>: the value of a live entry, \<^verbatim>\<open>null\<close> for an absent or expired one.\<close>

definition store_lookup :: "World \<Rightarrow> string \<Rightarrow> string option" where
  "store_lookup w k =
     (case store w k of
        None \<Rightarrow> None
      | Some (v, expires) \<Rightarrow> if clock w < expires then Some v else None)"

definition kv_get :: "string \<Rightarrow> World \<Rightarrow> string option \<times> World" where
  "kv_get k w = (store_lookup w k, w\<lparr>trace := trace w @ [KVGet k]\<rparr>)"

text \<open>\<^verbatim>\<open>store.put(key, value, {expirationTtl})\<close>.\<close>

definition kv_put :: "string \<Rightarrow> string \<Rightarrow> nat \<Rightarrow> World \<Rightarrow> World" where
  "kv_put k v ttl w =
     w\<lparr>store := (store w)(k \<mapsto> (v, clock w + ttl)), trace := trace w @ [KVPut k v ttl]\<rparr>"

definition kv_delete :: "string \<Rightarrow> World \<Rightarrow> World" where
  "kv_delete k w = w\<lparr>store := (store w)(k := None), trace := trace w @ [KVDelete k]\<rparr>"

definition generateRandomId :: "Platform \<Rightarrow> World \<Rightarrow> string \<times> World" where
  "generateRandomId P w = (randomIds P (idNext w), w\<lparr>idNext := Suc (idNext w)\<rparr>)"

text \<open>
  \<^verbatim>\<open>fetch(endpoint, {method: 'POST', headers, body: new URLSearchParams(proof).toString()})\<close>.
\<close>

definition post_form ::
  "Platform \<Rightarrow> string \<Rightarrow> (string \<times> string) list \<Rightarrow> World \<Rightarrow> (thrown + FetchResponse) \<times> World" where
  "post_form P endpoint form w =
     (upstream P endpoint form, w\<lparr>trace := trace w @ [Fetch endpoint form]\<rparr>)"

subsection \<open>The four operations of \<^verbatim>\<open>handleRequest\<close>\<close>

text \<open>
  Lines 10 to 40: the body of the \<^verbatim>\<open>/auth/authorize\<close> branch. Two identifiers are drawn,
  the read key first; the authorisation URL is built; the ticket is stored for 60
  seconds; the URL and the read key are returned as JSON.
\<close>

definition handle_authorize :: "Platform \<Rightarrow> Env \<Rightarrow> World \<Rightarrow> (thrown + Response) \<times> World" where
  "handle_authorize P env w =
     (let (readKey, w1) = generateRandomId P w;
          (writeKey, w2) = generateRandomId P w1;
          authorizeParams =
            [(''client_id'', CLIENT_ID env),
             (''redirect_uri'', REDIRECT_URI env),
             (''scope'', SCOPE env),
             (''state'', writeKey)]
      in case parseURL P (AUTHORIZE_ENDPOINT env) of
           Inl e \<Rightarrow> (Inl e, w2)
         | Inr parsed \<Rightarrow>
             (let authorizeUrl = URL_set_search (URLSearchParams_toString authorizeParams) parsed;
                  w3 = kv_put (''readKey:'' @ writeKey) readKey 60 w2;
                  response =
                    JSON_stringify
                      (JObject [(''url'', JString (URL_toString authorizeUrl)),
                                (''readKey'', JString readKey)])
              in (new_Response (Some response) 200
                    [(''Content-Type'', ''application/json''),
                     (''Access-Control-Allow-Origin'', PLUGIN_URI env)],
                  w3)))"

text \<open>
  Lines 47 to 103: the body of the \<^verbatim>\<open>/auth/redirect\<close> branch. After the two parameter
  checks the code is exchanged at the token endpoint; only a status-200 answer lets the
  handler go on to read the ticket, and only a ticket found lets it parse and store the
  tokens for 300 seconds. No response of this branch sets a header other than
  \<^verbatim>\<open>Content-Type\<close>.
\<close>

definition handle_redirect ::
  "Platform \<Rightarrow> Env \<Rightarrow> Request \<Rightarrow> World \<Rightarrow> (thrown + Response) \<times> World" where
  "handle_redirect P env req w =
     (let authorizationCode = searchParams_get req ''code'';
          writeKey = searchParams_get req ''state''
      in if falsy authorizationCode then
           (new_Response (Some ''Missing authorization code URL param'') 400 [], w)
         else if falsy writeKey then
           (new_Response (Some ''Missing state URL param'') 400 [], w)
         else
           (let exchangeProof =
                  [(''grant_type'', ''authorization_code''),
                   (''client_id'', CLIENT_ID env),
                   (''client_secret'', CLIENT_SECRET env),
                   (''redirect_uri'', REDIRECT_URI env),
                   (''code'', the authorizationCode)];
                (fetched, w1) = post_form P (TOKEN_ENDPOINT env) exchangeProof w
            in case fetched of
                 Inl e \<Rightarrow> (Inl e, w1)
               | Inr tokenResponse \<Rightarrow>
                   if up_status tokenResponse \<noteq> 200 then
                     (new_Response (Some (up_statusText tokenResponse)) (up_status tokenResponse) [], w1)
                   else
                     (let (readKey, w2) = kv_get (''readKey:'' @ the writeKey) w1
                      in if falsy readKey then
                           (new_Response (Some ''No read key found in storage'') 400 [], w2)
                         else
                           (case up_json tokenResponse of
                              Inl e \<Rightarrow> (Inl e, w2)
                            | Inr tokens \<Rightarrow>
                                (let w3 = kv_put (''tokens:'' @ the readKey) (JSON_stringify tokens) 300 w2
                                 in (new_Response
                                       (Some (htmlTemplate P
                                          ''Authentication successful! You can close this window and return to Framer.''))
                                       200 [(''Content-Type'', ''text/html'')],
                                     w3))))))"

text \<open>
  Lines 107 to 136: the body of the \<^verbatim>\<open>/auth/poll\<close> branch. The bundle is fetched, and when
  present it is deleted before it is returned.
\<close>

definition handle_poll ::
  "Env \<Rightarrow> Request \<Rightarrow> World \<Rightarrow> (thrown + Response) \<times> World" where
  "handle_poll env req w =
     (let readKey = searchParams_get req ''readKey''
      in if falsy readKey then
           (new_Response (Some ''Missing read key URL param'') 400
              [(''Access-Control-Allow-Origin'', PLUGIN_URI env)], w)
         else
           (let (tokens, w1) = kv_get (''tokens:'' @ the readKey) w
            in if falsy tokens then
                 (new_Response None 404 [(''Access-Control-Allow-Origin'', PLUGIN_URI env)], w1)
               else
                 (let w2 = kv_delete (''tokens:'' @ the readKey) w1
                  in (new_Response tokens 200
                        [(''Content-Type'', ''application/json''),
                         (''Access-Control-Allow-Origin'', PLUGIN_URI env)],
                      w2))))"

text \<open>
  Lines 140 to 183: the body of the \<^verbatim>\<open>/auth/refresh\<close> branch. The refresh token comes in
  the \<^verbatim>\<open>code\<close> query parameter.
\<close>

definition handle_refresh ::
  "Platform \<Rightarrow> Env \<Rightarrow> Request \<Rightarrow> World \<Rightarrow> (thrown + Response) \<times> World" where
  "handle_refresh P env req w =
     (let refreshToken = searchParams_get req ''code''
      in if falsy refreshToken then
           (new_Response (Some ''Missing refresh token URL param'') 400
              [(''Access-Control-Allow-Origin'', PLUGIN_URI env)], w)
         else
           (let exchangeProof =
                  [(''grant_type'', ''refresh_token''),
                   (''client_id'', CLIENT_ID env),
                   (''client_secret'', CLIENT_SECRET env),
                   (''redirect_uri'', REDIRECT_URI env),
                   (''refresh_token'', the refreshToken)];
                (fetched, w1) = post_form P (TOKEN_ENDPOINT env) exchangeProof w
            in case fetched of
                 Inl e \<Rightarrow> (Inl e, w1)
               | Inr refreshResponse \<Rightarrow>
                   if up_status refreshResponse \<noteq> 200 then
                     (new_Response (Some (up_statusText refreshResponse)) (up_status refreshResponse)
                        [(''Access-Control-Allow-Origin'', PLUGIN_URI env)], w1)
                   else
                     (case up_json refreshResponse of
                        Inl e \<Rightarrow> (Inl e, w1)
                      | Inr tokens \<Rightarrow>
                          (new_Response (Some (JSON_stringify tokens)) 200
                             [(''Content-Type'', ''application/json''),
                              (''Access-Control-Allow-Origin'', PLUGIN_URI env)],
                           w1))))"

subsection \<open>\<^verbatim>\<open>handleRequest\<close> and the exported \<^verbatim>\<open>fetch\<close>\<close>

text \<open>
  The body of the health check: the seven bytes that open the string literal of line 187,
  and the greeting.
\<close>

definition health_text :: string where
  "health_text =
     [CHR 0xC3, CHR 0xA2, CHR 0xC5, CHR 0x93, CHR 0xE2, CHR 0x80, CHR 0xA6]
     @ '' OAuth Worker is up and running!''"

definition handleRequest ::
  "Platform \<Rightarrow> Env \<Rightarrow> Request \<Rightarrow> World \<Rightarrow> (thrown + Response) \<times> World" where
  "handleRequest P env req w =
     (if req_method req = ''POST'' \<and> prefix ''/auth/authorize'' (pathname req) then
        handle_authorize P env w
      else if req_method req = ''GET'' \<and> prefix ''/auth/redirect'' (pathname req) then
        handle_redirect P env req w
      else if req_method req = ''POST'' \<and> prefix ''/auth/poll'' (pathname req) then
        handle_poll env req w
      else if req_method req = ''POST'' \<and> prefix ''/auth/refresh'' (pathname req) then
        handle_refresh P env req w
      else if req_method req = ''GET'' \<and> pathname req = ''/'' then
        (new_Response (Some health_text) 200 [], w)
      else
        (new_Response (Some ''Page not found'') 404
           [(''Access-Control-Allow-Origin'', PLUGIN_URI env)], w))"

text \<open>The message the catch-all reads off a thrown value.\<close>

fun error_message :: "thrown \<Rightarrow> string" where
  "error_message (JsError m) = m"
| "error_message JsNonError = ''Unknown''"

text \<open>
  The prefix of the 500 body: the nine bytes that open the template literal of line 203,
  and the label.
\<close>

definition internal_error_prefix :: string where
  "internal_error_prefix =
     [CHR 0xC3, CHR 0xB0, CHR 0xC5, CHR 0xB8, CHR 0xCB, CHR 0x9C, CHR 0xE2, CHR 0x80, CHR 0x9D]
     @ '' Internal error: ''"

text \<open>Lines 199 to 210: \<^verbatim>\<open>handleRequest(request, env).catch(...)\<close>.\<close>

definition fetch :: "Platform \<Rightarrow> Env \<Rightarrow> Request \<Rightarrow> World \<Rightarrow> (thrown + Response) \<times> World" where
  "fetch P env req w =
     (case handleRequest P env req w of
        (Inr response, w') \<Rightarrow> (Inr response, w')
      | (Inl error, w') \<Rightarrow>
          (new_Response (Some (internal_error_prefix @ error_message error)) 500
             [(''Access-Control-Allow-Origin'', PLUGIN_URI env)], w'))"

subsection \<open>A concrete deployment\<close>

text \<open>
  One configuration, one set of collaborators and a few worlds on which the handler is
  run below. The example provider accepts the code \<^verbatim>\<open>abc\<close>, rejects \<^verbatim>\<open>stale\<close> with a 401,
  answers \<^verbatim>\<open>empty\<close> with a 204 and is unreachable for anything else.
\<close>

definition ex_env :: Env where
  "ex_env = \<lparr>CLIENT_ID = ''cid'', CLIENT_SECRET = ''s3cret'',
     REDIRECT_URI = ''https://relay.test/auth/redirect'', SCOPE = ''crm oauth'',
     AUTHORIZE_ENDPOINT = ''https://idp.test/authorize'',
     TOKEN_ENDPOINT = ''https://idp.test/token'', PLUGIN_URI = ''https://plugin.test''\<rparr>"

definition ex_bundle :: json where
  "ex_bundle = JObject [(''access_token'', JString ''tok'')]"

definition ex_upstream :: "string \<Rightarrow> (string \<times> string) list \<Rightarrow> thrown + FetchResponse" where
  "ex_upstream endpoint form =
     (let v = (case map_of form ''code'' of
                 Some c \<Rightarrow> c
               | None \<Rightarrow> (case map_of form ''refresh_token'' of Some t \<Rightarrow> t | None \<Rightarrow> []))
      in if v = ''abc'' then
           Inr \<lparr>up_status = 200, up_statusText = ''OK'', up_text = JSON_stringify ex_bundle,
                up_json = Inr ex_bundle\<rparr>
         else if v = ''stale'' then
           Inr \<lparr>up_status = 401, up_statusText = ''Unauthorized'', up_text = ''invalid_grant'',
                up_json = Inl (JsError ''Unexpected token i in JSON at position 0'')\<rparr>
         else if v = ''empty'' then
           Inr \<lparr>up_status = 204, up_statusText = ''No Content'', up_text = [],
                up_json = Inl (JsError ''Unexpected end of JSON input'')\<rparr>
         else Inl (JsError ''Network connection lost.''))"

definition ex_platform :: Platform where
  "ex_platform = \<lparr>randomIds = (\<lambda>n. if n = 0 then ''R1'' else ''W1''),
     htmlTemplate = (\<lambda>m. ''<p>'' @ m @ ''</p>''),
     upstream = ex_upstream,
     parseURL = (\<lambda>s. if s = [] then Inl (JsError ''Invalid URL'')
                      else Inr \<lparr>beforeQuery = s, query = None, fragment = None\<rparr>)\<rparr>"

definition ex_world :: World where
  "ex_world = \<lparr>store = Map.empty, clock = 1000, idNext = 0, trace = []\<rparr>"

definition ex_request :: "string \<Rightarrow> string \<Rightarrow> (string \<times> string) list \<Rightarrow> Request" where
  "ex_request m p qs = \<lparr>req_method = m, pathname = p, searchParams = qs\<rparr>"

text \<open>The same world holding a ticket, and holding a token bundle.\<close>

definition ex_world_ticket :: World where
  "ex_world_ticket = ex_world\<lparr>store := [''readKey:W1'' \<mapsto> (''R1'', 1060)]\<rparr>"

definition ex_world_tokens :: World where
  "ex_world_tokens = ex_world\<lparr>store := [''tokens:R1'' \<mapsto> (JSON_stringify ex_bundle, 1300)]\<rparr>"

lemmas ex_defs = ex_env_def ex_bundle_def ex_upstream_def ex_platform_def ex_world_def
  ex_request_def ex_world_ticket_def ex_world_tokens_def

section \<open>Basic facts\<close>

lemma new_Response_ok:
  "200 \<le> s \<Longrightarrow> s \<le> 599 \<Longrightarrow> b = None \<or> \<not> null_body_status s \<Longrightarrow>
   new_Response b s hs = Inr \<lparr>status = s, body = b, headers = hs\<rparr>"
  by (auto simp: new_Response_def)

lemma new_Response_simps [simp]:
  "new_Response b 200 hs = Inr \<lparr>status = 200, body = b, headers = hs\<rparr>"
  "new_Response b 400 hs = Inr \<lparr>status = 400, body = b, headers = hs\<rparr>"
  "new_Response b 404 hs = Inr \<lparr>status = 404, body = b, headers = hs\<rparr>"
  "new_Response b 500 hs = Inr \<lparr>status = 500, body = b, headers = hs\<rparr>"
  by (simp_all add: new_Response_def null_body_status_def)

lemma not_authorize_poll: "prefix ''/auth/poll'' p \<Longrightarrow> \<not> prefix ''/auth/authorize'' p"
  by (auto simp: prefix_def)

lemma handleRequest_authorize:
  "req_method req = ''POST'' \<Longrightarrow> prefix ''/auth/authorize'' (pathname req) \<Longrightarrow>
   handleRequest P env req w = handle_authorize P env w"
  by (simp add: handleRequest_def)

lemma handleRequest_redirect:
  "req_method req = ''GET'' \<Longrightarrow> prefix ''/auth/redirect'' (pathname req) \<Longrightarrow>
   handleRequest P env req w = handle_redirect P env req w"
  by (simp add: handleRequest_def)

lemma handleRequest_refresh:
  "req_method req = ''POST'' \<Longrightarrow> prefix ''/auth/refresh'' (pathname req) \<Longrightarrow>
   handleRequest P env req w = handle_refresh P env req w"
  by (auto simp: handleRequest_def prefix_def)

lemma handleRequest_poll:
  "req_method req = ''POST'' \<Longrightarrow> prefix ''/auth/poll'' (pathname req) \<Longrightarrow>
   handleRequest P env req w = handle_poll env req w"
  by (auto simp: handleRequest_def prefix_def)

lemma not_falsy_iff: "\<not> falsy x \<longleftrightarrow> (\<exists>s. x = Some s \<and> s \<noteq> [])"
  by (cases x) auto

lemma handle_poll_delivers:
  assumes "searchParams_get req ''readKey'' = Some readKey"
    and "handle_poll env req w = (Inr r, w')" and "status r = 200"
  shows "store w' (''tokens:'' @ readKey) = None"
    and "body r = store_lookup w (''tokens:'' @ readKey)"
    and "body r \<noteq> None"
  using assms
  by (auto simp: handle_poll_def kv_get_def kv_delete_def Let_def not_falsy_iff split: if_splits)

lemma handle_poll_absent:
  assumes "searchParams_get req ''readKey'' = Some readKey" and "readKey \<noteq> []"
    and "store w (''tokens:'' @ readKey) = None"
  shows "fst (handle_poll env req w) =
           Inr \<lparr>status = 404, body = None,
                headers = [(''Access-Control-Allow-Origin'', PLUGIN_URI env)]\<rparr>"
  using assms
  by (simp add: handle_poll_def kv_get_def store_lookup_def Let_def)

lemma digits_of_nat_nonempty: "digits_of_nat n \<noteq> []"
  by (subst digits_of_nat.simps) simp

lemma Number_toString_nonempty: "Number_toString neg s n \<noteq> []"
  by (simp add: Number_toString_def Let_def digits_of_nat_nonempty)

lemma json_number_nonempty: "json_number x \<noteq> []"
  by (cases x) (simp_all add: Number_toString_nonempty)

lemma JSON_stringify_nonempty: "JSON_stringify j \<noteq> []"
  by (cases j) (simp_all add: json_quote_def json_number_nonempty)

lemma new_Response_headers: "new_Response b s hs = Inr r \<Longrightarrow> headers r = hs"
  by (auto simp: new_Response_def split: if_splits)

lemma URLSearchParams_client_id_first:
  "URLSearchParams_toString ((''client_id'', v) # (n, x) # ps) =
     ''client_id='' @ form_encode v @ ''&'' @ URLSearchParams_toString ((n, x) # ps)"
  by (simp add: URLSearchParams_toString_def form_encode_def form_encode_char_def
      form_unreserved_def)

lemma URL_set_search_authorize:
  "URL_set_search (URLSearchParams_toString ((''client_id'', v) # (n, x) # ps)) u =
     u\<lparr>query := Some (URLSearchParams_toString ((''client_id'', v) # (n, x) # ps))\<rparr>"
  unfolding URLSearchParams_client_id_first by (simp add: URL_set_search_def)

lemma store_lookup_trace [simp]: "store_lookup (w\<lparr>trace := es\<rparr>) k = store_lookup w k"
  by (simp add: store_lookup_def split: option.splits)

section \<open>Polling\<close>

text \<open>
  Claim C1. Whenever a poll for \<open>readKey\<close> succeeds (status 200), the body it returns is
  the live entry \<^verbatim>\<open>tokens:{readKey}\<close>, that entry is gone from the store afterwards, and
  any later poll for the same \<open>readKey\<close> on a store nobody has written to in between
  (whatever the time) answers 404 with a null body: the bundle is never returned twice.
\<close>

theorem poll_at_most_once:
  assumes "req_method req = ''POST''" and "prefix ''/auth/poll'' (pathname req)"
    and "searchParams_get req ''readKey'' = Some readKey"
    and "handleRequest P env req w = (Inr r, w')" and "status r = 200"
    and "req_method req2 = ''POST''" and "prefix ''/auth/poll'' (pathname req2)"
    and "searchParams_get req2 ''readKey'' = Some readKey"
    and "store w2 = store w'"
  shows "body r = store_lookup w (''tokens:'' @ readKey) \<and> body r \<noteq> None
       \<and> store w' (''tokens:'' @ readKey) = None
       \<and> fst (handleRequest P env req2 w2) =
           Inr \<lparr>status = 404, body = None,
                headers = [(''Access-Control-Allow-Origin'', PLUGIN_URI env)]\<rparr>"
proof -
  from assms(1,2,4) have first: "handle_poll env req w = (Inr r, w')"
    by (simp add: handleRequest_poll)
  note d = handle_poll_delivers [OF assms(3) first assms(5)]
  have "readKey \<noteq> []"
    using first assms(3,5) by (auto simp: handle_poll_def)
  moreover have "store w2 (''tokens:'' @ readKey) = None"
    using d(1) assms(9) by simp
  ultimately have "fst (handle_poll env req2 w2) =
      Inr \<lparr>status = 404, body = None,
           headers = [(''Access-Control-Allow-Origin'', PLUGIN_URI env)]\<rparr>"
    using assms(8) by (intro handle_poll_absent)
  then show ?thesis
    using d assms(6,7) by (simp add: handleRequest_poll)
qed

theorem poll_at_most_once_witness:
  "fst (handleRequest ex_platform ex_env
          (ex_request ''POST'' ''/auth/poll/again'' [(''readKey'', ''R1'')])
          (snd (handleRequest ex_platform ex_env
                  (ex_request ''POST'' ''/auth/poll'' [(''readKey'', ''R1'')]) ex_world_tokens)
             \<lparr>clock := 1001\<rparr>))
   = Inr \<lparr>status = 404, body = None,
          headers = [(''Access-Control-Allow-Origin'', ''https://plugin.test'')]\<rparr>"
  using poll_at_most_once
    [of "ex_request ''POST'' ''/auth/poll'' [(''readKey'', ''R1'')]" "''R1''"
        ex_platform ex_env ex_world_tokens
        "\<lparr>status = 200, body = Some (JSON_stringify ex_bundle),
          headers = [(''Content-Type'', ''application/json''),
                     (''Access-Control-Allow-Origin'', ''https://plugin.test'')]\<rparr>"
        "snd (handleRequest ex_platform ex_env
                (ex_request ''POST'' ''/auth/poll'' [(''readKey'', ''R1'')]) ex_world_tokens)"
        "ex_request ''POST'' ''/auth/poll/again'' [(''readKey'', ''R1'')]"
        "snd (handleRequest ex_platform ex_env
                (ex_request ''POST'' ''/auth/poll'' [(''readKey'', ''R1'')]) ex_world_tokens)
           \<lparr>clock := 1001\<rparr>"]
  by (simp add: ex_defs handleRequest_def handle_poll_def searchParams_get_def kv_get_def
      kv_delete_def store_lookup_def json_quote_def json_escape_char_def)

section \<open>Missing parameters\<close>

text \<open>
  Claim C4. A callback without \<^verbatim>\<open>code\<close> or without \<^verbatim>\<open>state\<close>, a poll without \<^verbatim>\<open>readKey\<close>
  and a refresh without \<^verbatim>\<open>code\<close> (absent or empty) each answer 400, and the world they
  return is the world they were given: nothing was fetched, read, written or drawn.
\<close>

theorem missing_parameter_400:
  assumes "req_method reqC = ''GET''" and "prefix ''/auth/redirect'' (pathname reqC)"
    and "falsy (searchParams_get reqC ''code'') \<or> falsy (searchParams_get reqC ''state'')"
    and "req_method reqP = ''POST''" and "prefix ''/auth/poll'' (pathname reqP)"
    and "falsy (searchParams_get reqP ''readKey'')"
    and "req_method reqR = ''POST''" and "prefix ''/auth/refresh'' (pathname reqR)"
    and "falsy (searchParams_get reqR ''code'')"
  shows "handleRequest P env reqC w =
           (Inr \<lparr>status = 400,
                 body = Some (if falsy (searchParams_get reqC ''code'')
                              then ''Missing authorization code URL param''
                              else ''Missing state URL param''),
                 headers = []\<rparr>, w)
       \<and> handleRequest P env reqP w =
           (Inr \<lparr>status = 400, body = Some ''Missing read key URL param'',
                 headers = [(''Access-Control-Allow-Origin'', PLUGIN_URI env)]\<rparr>, w)
       \<and> handleRequest P env reqR w =
           (Inr \<lparr>status = 400, body = Some ''Missing refresh token URL param'',
                 headers = [(''Access-Control-Allow-Origin'', PLUGIN_URI env)]\<rparr>, w)"
proof (intro conjI)
  show "handleRequest P env reqC w =
           (Inr \<lparr>status = 400,
                 body = Some (if falsy (searchParams_get reqC ''code'')
                              then ''Missing authorization code URL param''
                              else ''Missing state URL param''),
                 headers = []\<rparr>, w)"
    using assms(1-3) by (auto simp: handleRequest_redirect handle_redirect_def Let_def)
  show "handleRequest P env reqP w =
           (Inr \<lparr>status = 400, body = Some ''Missing read key URL param'',
                 headers = [(''Access-Control-Allow-Origin'', PLUGIN_URI env)]\<rparr>, w)"
    using assms(4-6) by (simp add: handleRequest_poll handle_poll_def Let_def)
  show "handleRequest P env reqR w =
           (Inr \<lparr>status = 400, body = Some ''Missing refresh token URL param'',
                 headers = [(''Access-Control-Allow-Origin'', PLUGIN_URI env)]\<rparr>, w)"
    using assms(7-9) by (simp add: handleRequest_refresh handle_refresh_def Let_def)
qed

theorem missing_parameter_400_witness:
  "handleRequest ex_platform ex_env (ex_request ''GET'' ''/auth/redirect'' [(''state'', ''W1'')]) ex_world_ticket =
     (Inr \<lparr>status = 400, body = Some ''Missing authorization code URL param'', headers = []\<rparr>,
      ex_world_ticket)
   \<and> handleRequest ex_platform ex_env (ex_request ''POST'' ''/auth/poll'' []) ex_world_ticket =
     (Inr \<lparr>status = 400, body = Some ''Missing read key URL param'',
           headers = [(''Access-Control-Allow-Origin'', ''https://plugin.test'')]\<rparr>, ex_world_ticket)
   \<and> handleRequest ex_platform ex_env (ex_request ''POST'' ''/auth/refresh'' [(''code'', '''')]) ex_world_ticket =
     (Inr \<lparr>status = 400, body = Some ''Missing refresh token URL param'',
           headers = [(''Access-Control-Allow-Origin'', ''https://plugin.test'')]\<rparr>, ex_world_ticket)"
  using missing_parameter_400
    [of "ex_request ''GET'' ''/auth/redirect'' [(''state'', ''W1'')]"
        "ex_request ''POST'' ''/auth/poll'' []"
        "ex_request ''POST'' ''/auth/refresh'' [(''code'', '''')]"
        ex_platform ex_env ex_world_ticket]
  by (simp add: ex_request_def ex_env_def searchParams_get_def)

section \<open>Routing\<close>

text \<open>
  Claim C10. Routes are matched on a prefix of the path: a POST whose path starts with
  \<^verbatim>\<open>/auth/authorize\<close> is an initiation, a GET whose path starts with \<^verbatim>\<open>/auth/redirect\<close> a
  callback, a POST whose path starts with \<^verbatim>\<open>/auth/poll\<close> a poll and a POST whose path
  starts with \<^verbatim>\<open>/auth/refresh\<close> a refresh. Any other GET is the health check exactly
  when its path is \<^verbatim>\<open>/\<close>, and a 404 otherwise.
\<close>

theorem prefix_routing:
  assumes "req_method reqA = ''POST''" and "prefix ''/auth/authorize'' (pathname reqA)"
    and "req_method reqC = ''GET''" and "prefix ''/auth/redirect'' (pathname reqC)"
    and "req_method reqP = ''POST''" and "prefix ''/auth/poll'' (pathname reqP)"
    and "req_method reqR = ''POST''" and "prefix ''/auth/refresh'' (pathname reqR)"
    and "req_method reqH = ''GET''" and "\<not> prefix ''/auth/redirect'' (pathname reqH)"
  shows "handleRequest P env reqA w = handle_authorize P env w
       \<and> handleRequest P env reqC w = handle_redirect P env reqC w
       \<and> handleRequest P env reqP w = handle_poll env reqP w
       \<and> handleRequest P env reqR w = handle_refresh P env reqR w
       \<and> handleRequest P env reqH w =
           (if pathname reqH = ''/''
            then (Inr \<lparr>status = 200, body = Some health_text, headers = []\<rparr>, w)
            else (Inr \<lparr>status = 404, body = Some ''Page not found'',
                       headers = [(''Access-Control-Allow-Origin'', PLUGIN_URI env)]\<rparr>, w))"
  using assms
  by (simp add: handleRequest_authorize handleRequest_redirect handleRequest_poll
      handleRequest_refresh) (simp add: handleRequest_def)

theorem prefix_routing_witness:
  "handleRequest ex_platform ex_env (ex_request ''POST'' ''/auth/authorizeXYZ'' []) ex_world
     = handle_authorize ex_platform ex_env ex_world
   \<and> handleRequest ex_platform ex_env (ex_request ''GET'' ''/auth/redirect/extra'' []) ex_world
     = handle_redirect ex_platform ex_env (ex_request ''GET'' ''/auth/redirect/extra'' []) ex_world
   \<and> handleRequest ex_platform ex_env (ex_request ''POST'' ''/auth/polling'' []) ex_world
     = handle_poll ex_env (ex_request ''POST'' ''/auth/polling'' []) ex_world
   \<and> handleRequest ex_platform ex_env (ex_request ''POST'' ''/auth/refresh.php'' []) ex_world
     = handle_refresh ex_platform ex_env (ex_request ''POST'' ''/auth/refresh.php'' []) ex_world
   \<and> handleRequest ex_platform ex_env (ex_request ''GET'' ''/health'' []) ex_world
     = (Inr \<lparr>status = 404, body = Some ''Page not found'',
             headers = [(''Access-Control-Allow-Origin'', ''https://plugin.test'')]\<rparr>, ex_world)"
  using prefix_routing
    [of "ex_request ''POST'' ''/auth/authorizeXYZ'' []"
        "ex_request ''GET'' ''/auth/redirect/extra'' []"
        "ex_request ''POST'' ''/auth/polling'' []"
        "ex_request ''POST'' ''/auth/refresh.php'' []"
        "ex_request ''GET'' ''/health'' []"
        ex_platform ex_env ex_world]
  by (simp add: ex_request_def ex_env_def)

section \<open>Refreshing\<close>

text \<open>
  Claim C8. A refresh never touches the key-value store: whatever the request carries and
  whatever the provider answers, the store is the same afterwards and the only effect
  logged is at most one POST to the token endpoint.
\<close>

theorem refresh_stateless:
  assumes "req_method req = ''POST''" and "prefix ''/auth/refresh'' (pathname req)"
    and "handleRequest P env req w = (res, w')"
  shows "store w' = store w
       \<and> trace w' = trace w @
           (if falsy (searchParams_get req ''code'') then []
            else [Fetch (TOKEN_ENDPOINT env)
                    [(''grant_type'', ''refresh_token''),
                     (''client_id'', CLIENT_ID env),
                     (''client_secret'', CLIENT_SECRET env),
                     (''redirect_uri'', REDIRECT_URI env),
                     (''refresh_token'', the (searchParams_get req ''code''))]])"
  using assms
  by (auto simp: handleRequest_refresh handle_refresh_def post_form_def Let_def
      split: if_splits sum.splits)

theorem refresh_stateless_witness:
  "store (snd (handleRequest ex_platform ex_env
                 (ex_request ''POST'' ''/auth/refresh'' [(''code'', ''abc'')]) ex_world_tokens))
     = store ex_world_tokens
   \<and> trace (snd (handleRequest ex_platform ex_env
                 (ex_request ''POST'' ''/auth/refresh'' [(''code'', ''abc'')]) ex_world_tokens))
     = [Fetch ''https://idp.test/token''
          [(''grant_type'', ''refresh_token''), (''client_id'', ''cid''),
           (''client_secret'', ''s3cret''),
           (''redirect_uri'', ''https://relay.test/auth/redirect''),
           (''refresh_token'', ''abc'')]]"
  using refresh_stateless
    [of "ex_request ''POST'' ''/auth/refresh'' [(''code'', ''abc'')]" ex_platform ex_env
        ex_world_tokens
        "fst (handleRequest ex_platform ex_env
                 (ex_request ''POST'' ''/auth/refresh'' [(''code'', ''abc'')]) ex_world_tokens)"
        "snd (handleRequest ex_platform ex_env
                 (ex_request ''POST'' ''/auth/refresh'' [(''code'', ''abc'')]) ex_world_tokens)"]
  by (simp add: ex_request_def ex_env_def ex_world_tokens_def ex_world_def searchParams_get_def)

section \<open>The catch-all\<close>

text \<open>
  Claim C9. The exported \<^verbatim>\<open>fetch\<close> always returns a response. When \<^verbatim>\<open>handleRequest\<close>
  rejects with a thrown value, that response has status 500, its body is the fixed prefix
  followed by the error's message (by \<^verbatim>\<open>Unknown\<close> for a thrown value that is not an
  \<^verbatim>\<open>Error\<close>), and it carries \<^verbatim>\<open>Access-Control-Allow-Origin\<close> set to the plugin origin.
\<close>

theorem catch_all_boundary:
  "(\<exists>r w'. fetch P env req w = (Inr r, w'))
   \<and> (\<forall>e w'. handleRequest P env req w = (Inl e, w') \<longrightarrow>
        fetch P env req w =
          (Inr \<lparr>status = 500, body = Some (internal_error_prefix @ error_message e),
                headers = [(''Access-Control-Allow-Origin'', PLUGIN_URI env)]\<rparr>, w'))"
  by (auto simp: fetch_def split: prod.splits sum.splits)

theorem catch_all_boundary_witness:
  "handleRequest ex_platform ex_env
     (ex_request ''POST'' ''/auth/refresh'' [(''code'', ''offline'')]) ex_world
   = (Inl (JsError ''Network connection lost.''),
      ex_world\<lparr>trace := [Fetch ''https://idp.test/token''
          [(''grant_type'', ''refresh_token''), (''client_id'', ''cid''),
           (''client_secret'', ''s3cret''),
           (''redirect_uri'', ''https://relay.test/auth/redirect''),
           (''refresh_token'', ''offline'')]]\<rparr>)
   \<and> fetch ex_platform ex_env
     (ex_request ''POST'' ''/auth/refresh'' [(''code'', ''offline'')]) ex_world
   = (Inr \<lparr>status = 500,
           body = Some (internal_error_prefix @ ''Network connection lost.''),
           headers = [(''Access-Control-Allow-Origin'', ''https://plugin.test'')]\<rparr>,
      ex_world\<lparr>trace := [Fetch ''https://idp.test/token''
          [(''grant_type'', ''refresh_token''), (''client_id'', ''cid''),
           (''client_secret'', ''s3cret''),
           (''redirect_uri'', ''https://relay.test/auth/redirect''),
           (''refresh_token'', ''offline'')]]\<rparr>)"
proof -
  have thrown: "handleRequest ex_platform ex_env
     (ex_request ''POST'' ''/auth/refresh'' [(''code'', ''offline'')]) ex_world
   = (Inl (JsError ''Network connection lost.''),
      ex_world\<lparr>trace := [Fetch ''https://idp.test/token''
          [(''grant_type'', ''refresh_token''), (''client_id'', ''cid''),
           (''client_secret'', ''s3cret''),
           (''redirect_uri'', ''https://relay.test/auth/redirect''),
           (''refresh_token'', ''offline'')]]\<rparr>)"
    by (simp add: ex_defs handleRequest_def handle_refresh_def searchParams_get_def
        post_form_def)
  from catch_all_boundary [of ex_platform ex_env
      "ex_request ''POST'' ''/auth/refresh'' [(''code'', ''offline'')]" ex_world] thrown
  show ?thesis by (simp add: ex_env_def)
qed

section \<open>Initiation\<close>

text \<open>
  Claim C6. An initiation (with an \<^verbatim>\<open>AUTHORIZE_ENDPOINT\<close> that parses as a URL) draws a read
  key and then a write key from the generator, answers 200 with the JSON object holding
  \<^verbatim>\<open>url\<close> and \<^verbatim>\<open>readKey\<close>, where \<^verbatim>\<open>url\<close> is the endpoint whose query is the serialisation of
  \<^verbatim>\<open>client_id\<close>, \<^verbatim>\<open>redirect_uri\<close>, \<^verbatim>\<open>scope\<close> and \<^verbatim>\<open>state\<close> = write key, and leaves in the store
  the entry \<^verbatim>\<open>readKey:{writeKey}\<close> holding the read key, written with a TTL of 60 seconds.
\<close>

theorem initiate_postcondition:
  assumes "req_method req = ''POST''" and "prefix ''/auth/authorize'' (pathname req)"
    and "parseURL P (AUTHORIZE_ENDPOINT env) = Inr u"
    and "handleRequest P env req w = (res, w')"
  defines "readKey \<equiv> randomIds P (idNext w)"
    and "writeKey \<equiv> randomIds P (Suc (idNext w))"
  shows "res = Inr \<lparr>status = 200,
           body = Some (JSON_stringify (JObject
             [(''url'', JString (URL_toString
                 (u\<lparr>query := Some (URLSearchParams_toString
                    [(''client_id'', CLIENT_ID env),
                     (''redirect_uri'', REDIRECT_URI env),
                     (''scope'', SCOPE env),
                     (''state'', writeKey)])\<rparr>))),
              (''readKey'', JString readKey)])),
           headers = [(''Content-Type'', ''application/json''),
                      (''Access-Control-Allow-Origin'', PLUGIN_URI env)]\<rparr>
       \<and> store w' = (store w)(''readKey:'' @ writeKey \<mapsto> (readKey, clock w + 60))
       \<and> store_lookup w' (''readKey:'' @ writeKey) = Some readKey
       \<and> trace w' = trace w @ [KVPut (''readKey:'' @ writeKey) readKey 60]
       \<and> idNext w' = idNext w + 2"
proof -
  have "handle_authorize P env w = (res, w')"
    using assms(1,2,4) by (simp add: handleRequest_authorize)
  then show ?thesis
    using assms(3) unfolding readKey_def writeKey_def
    by (auto simp: handle_authorize_def generateRandomId_def kv_put_def store_lookup_def
        URL_set_search_authorize Let_def simp del: JSON_stringify.simps)
qed

theorem initiate_postcondition_witness:
  "fst (handleRequest ex_platform ex_env (ex_request ''POST'' ''/auth/authorize'' []) ex_world) =
     Inr \<lparr>status = 200,
       body = Some (JSON_stringify (JObject
         [(''url'', JString
            ''https://idp.test/authorize?client_id=cid&redirect_uri=https%3A%2F%2Frelay.test%2Fauth%2Fredirect&scope=crm+oauth&state=W1''),
          (''readKey'', JString ''R1'')])),
       headers = [(''Content-Type'', ''application/json''),
                  (''Access-Control-Allow-Origin'', ''https://plugin.test'')]\<rparr>
   \<and> store_lookup
         (snd (handleRequest ex_platform ex_env (ex_request ''POST'' ''/auth/authorize'' []) ex_world))
         ''readKey:W1'' = Some ''R1''
   \<and> trace (snd (handleRequest ex_platform ex_env (ex_request ''POST'' ''/auth/authorize'' []) ex_world))
       = [KVPut ''readKey:W1'' ''R1'' 60]"
  using initiate_postcondition
    [of "ex_request ''POST'' ''/auth/authorize'' []" ex_platform ex_env
        "\<lparr>beforeQuery = ''https://idp.test/authorize'', query = None, fragment = None\<rparr>"
        ex_world
        "fst (handleRequest ex_platform ex_env (ex_request ''POST'' ''/auth/authorize'' []) ex_world)"
        "snd (handleRequest ex_platform ex_env (ex_request ''POST'' ''/auth/authorize'' []) ex_world)"]
  by (simp add: ex_request_def ex_env_def ex_platform_def ex_world_def URL_toString_def
      URLSearchParams_toString_def form_encode_def form_encode_char_def form_unreserved_def
      hex_upper_def del: JSON_stringify.simps)

section \<open>The CORS header\<close>

text \<open>
  Claim C7, as the code has it. The responses built by the \<^verbatim>\<open>/auth/redirect\<close> branch carry
  no \<^verbatim>\<open>Access-Control-Allow-Origin\<close> header, and neither does the health check. Every other
  response of the exported \<^verbatim>\<open>fetch\<close> carries the header with the value \<^verbatim>\<open>PLUGIN_URI\<close>: the
  responses of the initiation, poll and refresh branches, the final 404, and the 500 of
  the catch-all on any route, the callback route included.
\<close>

theorem cors_header_scope:
  assumes "fetch P env req w = (Inr r, w')"
  shows "header_get r ''Access-Control-Allow-Origin'' =
     (if req_method req = ''GET''
         \<and> (pathname req = ''/''
            \<or> (prefix ''/auth/redirect'' (pathname req)
               \<and> \<not> isl (fst (handleRequest P env req w))))
      then None else Some (PLUGIN_URI env))"
proof (cases "fst (handleRequest P env req w)")
  case (Inl e)
  then have "headers r = [(''Access-Control-Allow-Origin'', PLUGIN_URI env)]"
    using assms by (auto simp: fetch_def split: prod.splits)
  moreover have "pathname req \<noteq> ''/'' \<or> req_method req \<noteq> ''GET''"
    using Inl by (auto simp: handleRequest_def prefix_def)
  ultimately show ?thesis
    using Inl by (auto simp: header_get_def)
next
  case (Inr r')
  with assms have r: "fst (handleRequest P env req w) = Inr r"
    by (auto simp: fetch_def split: prod.splits)
  show ?thesis
  proof (cases "req_method req = ''GET'' \<and> prefix ''/auth/redirect'' (pathname req)")
    case True
    then have "fst (handle_redirect P env req w) = Inr r"
      using r by (simp add: handleRequest_redirect)
    then have "headers r = [] \<or> headers r = [(''Content-Type'', ''text/html'')]"
      by (auto simp: handle_redirect_def post_form_def kv_get_def Let_def
          dest!: new_Response_headers split: if_splits sum.splits prod.splits)
    then show ?thesis
      using True r by (auto simp: header_get_def)
  next
    case False
    show ?thesis
    proof (cases "req_method req = ''GET'' \<and> pathname req = ''/''")
      case True
      then have "headers r = []"
        using r by (auto simp: handleRequest_def prefix_def)
      then show ?thesis
        using True by (simp add: header_get_def)
    next
      case health: False
      have "headers r = [(''Access-Control-Allow-Origin'', PLUGIN_URI env)]
          \<or> headers r = [(''Content-Type'', ''application/json''),
                         (''Access-Control-Allow-Origin'', PLUGIN_URI env)]"
        using r False health
        by (auto simp: handleRequest_def handle_authorize_def handle_poll_def handle_refresh_def
            generateRandomId_def kv_get_def post_form_def Let_def
            dest!: new_Response_headers split: if_splits sum.splits prod.splits)
      then show ?thesis
        using False health by (auto simp: header_get_def)
    qed
  qed
qed

theorem cors_header_scope_witness:
  "header_get
     (projr (fst (fetch ex_platform ex_env
        (ex_request ''POST'' ''/auth/poll'' [(''readKey'', ''R1'')]) ex_world)))
     ''Access-Control-Allow-Origin'' = Some ''https://plugin.test''
   \<and> header_get
     (projr (fst (fetch ex_platform ex_env
        (ex_request ''GET'' ''/auth/redirect'' [(''code'', ''abc''), (''state'', ''W1'')])
        ex_world_ticket)))
     ''Access-Control-Allow-Origin'' = None
   \<and> header_get
     (projr (fst (fetch ex_platform ex_env
        (ex_request ''GET'' ''/auth/redirect'' [(''code'', ''offline''), (''state'', ''W1'')])
        ex_world_ticket)))
     ''Access-Control-Allow-Origin'' = Some ''https://plugin.test''"
proof -
  let ?poll = "ex_request ''POST'' ''/auth/poll'' [(''readKey'', ''R1'')]"
  let ?done = "ex_request ''GET'' ''/auth/redirect'' [(''code'', ''abc''), (''state'', ''W1'')]"
  let ?lost = "ex_request ''GET'' ''/auth/redirect'' [(''code'', ''offline''), (''state'', ''W1'')]"
  have a: "header_get (projr (fst (fetch ex_platform ex_env ?poll ex_world)))
      ''Access-Control-Allow-Origin'' = Some ''https://plugin.test''"
    using cors_header_scope
      [of ex_platform ex_env ?poll ex_world
          "projr (fst (fetch ex_platform ex_env ?poll ex_world))"
          "snd (fetch ex_platform ex_env ?poll ex_world)"]
    by (simp add: ex_defs fetch_def handleRequest_def handle_poll_def searchParams_get_def
        kv_get_def store_lookup_def)
  have b: "header_get (projr (fst (fetch ex_platform ex_env ?done ex_world_ticket)))
      ''Access-Control-Allow-Origin'' = None"
    using cors_header_scope
      [of ex_platform ex_env ?done ex_world_ticket
          "projr (fst (fetch ex_platform ex_env ?done ex_world_ticket))"
          "snd (fetch ex_platform ex_env ?done ex_world_ticket)"]
    by (simp add: ex_defs fetch_def handleRequest_def handle_redirect_def searchParams_get_def
        post_form_def kv_get_def kv_put_def store_lookup_def del: JSON_stringify.simps)
  have c: "header_get (projr (fst (fetch ex_platform ex_env ?lost ex_world_ticket)))
      ''Access-Control-Allow-Origin'' = Some ''https://plugin.test''"
    using cors_header_scope
      [of ex_platform ex_env ?lost ex_world_ticket
          "projr (fst (fetch ex_platform ex_env ?lost ex_world_ticket))"
          "snd (fetch ex_platform ex_env ?lost ex_world_ticket)"]
    by (simp add: ex_defs fetch_def handleRequest_def handle_redirect_def searchParams_get_def
        post_form_def del: JSON_stringify.simps)
  from a b c show ?thesis by blast
qed

text \<open>
  The claim as stated fails on the callback route: a callback without \<^verbatim>\<open>code\<close> is answered
  400 with no header at all.
\<close>

theorem cors_header_counterexample:
  "fetch ex_platform ex_env (ex_request ''GET'' ''/auth/redirect'' [(''state'', ''W1'')]) ex_world_ticket
     = (Inr \<lparr>status = 400, body = Some ''Missing authorization code URL param'', headers = []\<rparr>,
        ex_world_ticket)
   \<and> header_get \<lparr>status = 400, body = Some ''Missing authorization code URL param'', headers = []\<rparr>
        ''Access-Control-Allow-Origin'' \<noteq> Some (PLUGIN_URI ex_env)"
  by (simp add: ex_request_def fetch_def handleRequest_def handle_redirect_def
      searchParams_get_def header_get_def)

section \<open>The callback\<close>

text \<open>
  Claim C2, as the code has it. With \<^verbatim>\<open>code\<close> and \<^verbatim>\<open>state\<close> present, the first effect of the
  callback is the POST to the token endpoint. The ticket \<^verbatim>\<open>readKey:{state}\<close> is read only
  after a status-200 answer; when it is absent (or empty) the handler answers 400 and the
  store is left as it was, the provider having been contacted already. The entry
  \<^verbatim>\<open>tokens:{readKey}\<close> is written (TTL 300) only after a status-200 answer, a ticket found
  and a body that parsed, and then the confirmation page is returned. Nothing else is done.
\<close>

theorem callback_effect_order:
  assumes "req_method req = ''GET''" and "prefix ''/auth/redirect'' (pathname req)"
    and "searchParams_get req ''code'' = Some code" and "code \<noteq> []"
    and "searchParams_get req ''state'' = Some writeKey" and "writeKey \<noteq> []"
    and "handleRequest P env req w = (res, w')"
  defines "exchangeProof \<equiv>
      [(''grant_type'', ''authorization_code''),
       (''client_id'', CLIENT_ID env),
       (''client_secret'', CLIENT_SECRET env),
       (''redirect_uri'', REDIRECT_URI env),
       (''code'', code)]"
  shows "trace w' = trace w @ Fetch (TOKEN_ENDPOINT env) exchangeProof #
      (case upstream P (TOKEN_ENDPOINT env) exchangeProof of
         Inl e \<Rightarrow> []
       | Inr tokenResponse \<Rightarrow>
           if up_status tokenResponse \<noteq> 200 then []
           else KVGet (''readKey:'' @ writeKey) #
             (case store_lookup w (''readKey:'' @ writeKey) of
                None \<Rightarrow> []
              | Some readKey \<Rightarrow>
                  if readKey = [] then []
                  else (case up_json tokenResponse of
                          Inl e \<Rightarrow> []
                        | Inr tokens \<Rightarrow>
                            [KVPut (''tokens:'' @ readKey) (JSON_stringify tokens) 300])))
    \<and> store w' =
      (case upstream P (TOKEN_ENDPOINT env) exchangeProof of
         Inl e \<Rightarrow> store w
       | Inr tokenResponse \<Rightarrow>
           if up_status tokenResponse \<noteq> 200 then store w
           else (case store_lookup w (''readKey:'' @ writeKey) of
                   None \<Rightarrow> store w
                 | Some readKey \<Rightarrow>
                     if readKey = [] then store w
                     else (case up_json tokenResponse of
                             Inl e \<Rightarrow> store w
                           | Inr tokens \<Rightarrow>
                               (store w)(''tokens:'' @ readKey \<mapsto>
                                  (JSON_stringify tokens, clock w + 300)))))
    \<and> res =
      (case upstream P (TOKEN_ENDPOINT env) exchangeProof of
         Inl e \<Rightarrow> Inl e
       | Inr tokenResponse \<Rightarrow>
           if up_status tokenResponse \<noteq> 200 then
             new_Response (Some (up_statusText tokenResponse)) (up_status tokenResponse) []
           else (case store_lookup w (''readKey:'' @ writeKey) of
                   None \<Rightarrow>
                     Inr \<lparr>status = 400, body = Some ''No read key found in storage'',
                          headers = []\<rparr>
                 | Some readKey \<Rightarrow>
                     if readKey = [] then
                       Inr \<lparr>status = 400, body = Some ''No read key found in storage'',
                            headers = []\<rparr>
                     else (case up_json tokenResponse of
                             Inl e \<Rightarrow> Inl e
                           | Inr tokens \<Rightarrow>
                               Inr \<lparr>status = 200,
                                 body = Some (htmlTemplate P
                                   ''Authentication successful! You can close this window and return to Framer.''),
                                 headers = [(''Content-Type'', ''text/html'')]\<rparr>)))"
proof -
  have run: "handle_redirect P env req w = (res, w')"
    using assms(1,2,7) by (simp add: handleRequest_redirect)
  show ?thesis
  proof (cases "upstream P (TOKEN_ENDPOINT env) exchangeProof")
    case (Inl e)
    then show ?thesis
      using run assms(3-6) unfolding exchangeProof_def
      by (auto simp: handle_redirect_def post_form_def Let_def)
  next
    case (Inr tokenResponse)
    show ?thesis
    proof (cases "up_status tokenResponse = 200")
      case False
      then show ?thesis
        using run Inr assms(3-6) unfolding exchangeProof_def
        by (auto simp: handle_redirect_def post_form_def Let_def)
    next
      case True
      show ?thesis
      proof (cases "falsy (store_lookup w (''readKey:'' @ writeKey))")
        case True
        then show ?thesis
          using run Inr \<open>up_status tokenResponse = 200\<close> assms(3-6) unfolding exchangeProof_def
          by (cases "store_lookup w (''readKey:'' @ writeKey)")
             (auto simp: handle_redirect_def post_form_def kv_get_def Let_def)
      next
        case False
        then obtain readKey where rk: "store_lookup w (''readKey:'' @ writeKey) = Some readKey"
          and ne: "readKey \<noteq> []"
          by (auto simp: not_falsy_iff)
        show ?thesis
          using run Inr \<open>up_status tokenResponse = 200\<close> rk ne assms(3-6)
          unfolding exchangeProof_def
          by (cases "up_json tokenResponse")
             (auto simp: handle_redirect_def post_form_def kv_get_def kv_put_def Let_def
               simp del: JSON_stringify.simps)
      qed
    qed
  qed
qed

theorem callback_effect_order_witness:
  "trace (snd (handleRequest ex_platform ex_env
       (ex_request ''GET'' ''/auth/redirect'' [(''code'', ''abc''), (''state'', ''W1'')])
       ex_world_ticket))
   = [Fetch ''https://idp.test/token''
        [(''grant_type'', ''authorization_code''), (''client_id'', ''cid''),
         (''client_secret'', ''s3cret''),
         (''redirect_uri'', ''https://relay.test/auth/redirect''), (''code'', ''abc'')],
      KVGet ''readKey:W1'',
      KVPut ''tokens:R1'' (JSON_stringify ex_bundle) 300]
   \<and> store (snd (handleRequest ex_platform ex_env
       (ex_request ''GET'' ''/auth/redirect'' [(''code'', ''abc''), (''state'', ''W1'')])
       ex_world_ticket))
     = (store ex_world_ticket)(''tokens:R1'' \<mapsto> (JSON_stringify ex_bundle, 1300))
   \<and> fst (handleRequest ex_platform ex_env
       (ex_request ''GET'' ''/auth/redirect'' [(''code'', ''abc''), (''state'', ''W1'')])
       ex_world_ticket)
     = Inr \<lparr>status = 200,
         body = Some ''<p>Authentication successful! You can close this window and return to Framer.</p>'',
         headers = [(''Content-Type'', ''text/html'')]\<rparr>
   \<and> trace (snd (handleRequest ex_platform ex_env
       (ex_request ''GET'' ''/auth/redirect'' [(''code'', ''abc''), (''state'', ''W2'')])
       ex_world_ticket))
     = [Fetch ''https://idp.test/token''
          [(''grant_type'', ''authorization_code''), (''client_id'', ''cid''),
           (''client_secret'', ''s3cret''),
           (''redirect_uri'', ''https://relay.test/auth/redirect''), (''code'', ''abc'')],
        KVGet ''readKey:W2'']
   \<and> store (snd (handleRequest ex_platform ex_env
       (ex_request ''GET'' ''/auth/redirect'' [(''code'', ''abc''), (''state'', ''W2'')])
       ex_world_ticket))
     = store ex_world_ticket
   \<and> fst (handleRequest ex_platform ex_env
       (ex_request ''GET'' ''/auth/redirect'' [(''code'', ''abc''), (''state'', ''W2'')])
       ex_world_ticket)
     = Inr \<lparr>status = 400, body = Some ''No read key found in storage'', headers = []\<rparr>"
proof -
  let ?found = "ex_request ''GET'' ''/auth/redirect'' [(''code'', ''abc''), (''state'', ''W1'')]"
  let ?missing = "ex_request ''GET'' ''/auth/redirect'' [(''code'', ''abc''), (''state'', ''W2'')]"
  note found = callback_effect_order
    [of ?found "''abc''" "''W1''" ex_platform ex_env ex_world_ticket
        "fst (handleRequest ex_platform ex_env ?found ex_world_ticket)"
        "snd (handleRequest ex_platform ex_env ?found ex_world_ticket)"]
  note missing = callback_effect_order
    [of ?missing "''abc''" "''W2''" ex_platform ex_env ex_world_ticket
        "fst (handleRequest ex_platform ex_env ?missing ex_world_ticket)"
        "snd (handleRequest ex_platform ex_env ?missing ex_world_ticket)"]
  have one: "trace (snd (handleRequest ex_platform ex_env ?found ex_world_ticket))
      = [Fetch ''https://idp.test/token''
          [(''grant_type'', ''authorization_code''), (''client_id'', ''cid''),
           (''client_secret'', ''s3cret''),
           (''redirect_uri'', ''https://relay.test/auth/redirect''), (''code'', ''abc'')],
         KVGet ''readKey:W1'',
         KVPut ''tokens:R1'' (JSON_stringify ex_bundle) 300]
    \<and> store (snd (handleRequest ex_platform ex_env ?found ex_world_ticket))
      = (store ex_world_ticket)(''tokens:R1'' \<mapsto> (JSON_stringify ex_bundle, 1300))
    \<and> fst (handleRequest ex_platform ex_env ?found ex_world_ticket)
      = Inr \<lparr>status = 200,
          body = Some ''<p>Authentication successful! You can close this window and return to Framer.</p>'',
          headers = [(''Content-Type'', ''text/html'')]\<rparr>"
    using found
    by (simp add: ex_request_def ex_env_def ex_platform_def ex_upstream_def ex_world_ticket_def
        ex_world_def searchParams_get_def store_lookup_def del: JSON_stringify.simps)
  have two: "trace (snd (handleRequest ex_platform ex_env ?missing ex_world_ticket))
      = [Fetch ''https://idp.test/token''
          [(''grant_type'', ''authorization_code''), (''client_id'', ''cid''),
           (''client_secret'', ''s3cret''),
           (''redirect_uri'', ''https://relay.test/auth/redirect''), (''code'', ''abc'')],
         KVGet ''readKey:W2'']
    \<and> store (snd (handleRequest ex_platform ex_env ?missing ex_world_ticket))
      = store ex_world_ticket
    \<and> fst (handleRequest ex_platform ex_env ?missing ex_world_ticket)
      = Inr \<lparr>status = 400, body = Some ''No read key found in storage'', headers = []\<rparr>"
    using missing
    by (simp add: ex_request_def ex_env_def ex_platform_def ex_upstream_def ex_world_ticket_def
        ex_world_def searchParams_get_def store_lookup_def del: JSON_stringify.simps)
  from one two show ?thesis by blast
qed

text \<open>
  The claim as stated fails when the ticket is absent: the provider has already been
  contacted when the lookup misses.
\<close>

theorem callback_lookup_first_counterexample:
  "store_lookup ex_world ''readKey:W1'' = None
   \<and> handleRequest ex_platform ex_env
       (ex_request ''GET'' ''/auth/redirect'' [(''code'', ''abc''), (''state'', ''W1'')]) ex_world
     = (Inr \<lparr>status = 400, body = Some ''No read key found in storage'', headers = []\<rparr>,
        ex_world\<lparr>trace :=
          [Fetch ''https://idp.test/token''
             [(''grant_type'', ''authorization_code''), (''client_id'', ''cid''),
              (''client_secret'', ''s3cret''),
              (''redirect_uri'', ''https://relay.test/auth/redirect''), (''code'', ''abc'')],
           KVGet ''readKey:W1'']\<rparr>)"
  by (simp add: ex_request_def ex_env_def ex_platform_def ex_upstream_def ex_world_def
      handleRequest_def handle_redirect_def searchParams_get_def post_form_def kv_get_def
      store_lookup_def del: JSON_stringify.simps)

section \<open>Upstream failures\<close>

text \<open>
  Claim C5, as the code has it. When the token endpoint answers with a status other than
  200 that \<^verbatim>\<open>Response\<close> accepts together with a body (200 to 599, not a null-body status),
  the callback and the refresh both answer with that status and with the upstream status
  text as the body; the upstream body is not forwarded. The only effect is the POST:
  nothing is stored.
\<close>

theorem upstream_failure_passthrough:
  assumes "req_method reqC = ''GET''" and "prefix ''/auth/redirect'' (pathname reqC)"
    and "searchParams_get reqC ''code'' = Some code" and "code \<noteq> []"
    and "searchParams_get reqC ''state'' = Some writeKey" and "writeKey \<noteq> []"
    and "upstream P (TOKEN_ENDPOINT env)
           [(''grant_type'', ''authorization_code''),
            (''client_id'', CLIENT_ID env),
            (''client_secret'', CLIENT_SECRET env),
            (''redirect_uri'', REDIRECT_URI env),
            (''code'', code)] = Inr tokenResponse"
    and "up_status tokenResponse \<noteq> 200"
    and "200 \<le> up_status tokenResponse" and "up_status tokenResponse \<le> 599"
    and "\<not> null_body_status (up_status tokenResponse)"
    and "req_method reqR = ''POST''" and "prefix ''/auth/refresh'' (pathname reqR)"
    and "searchParams_get reqR ''code'' = Some refreshToken" and "refreshToken \<noteq> []"
    and "upstream P (TOKEN_ENDPOINT env)
           [(''grant_type'', ''refresh_token''),
            (''client_id'', CLIENT_ID env),
            (''client_secret'', CLIENT_SECRET env),
            (''redirect_uri'', REDIRECT_URI env),
            (''refresh_token'', refreshToken)] = Inr refreshResponse"
    and "up_status refreshResponse \<noteq> 200"
    and "200 \<le> up_status refreshResponse" and "up_status refreshResponse \<le> 599"
    and "\<not> null_body_status (up_status refreshResponse)"
  shows "handleRequest P env reqC w =
           (Inr \<lparr>status = up_status tokenResponse, body = Some (up_statusText tokenResponse),
                 headers = []\<rparr>,
            w\<lparr>trace := trace w @ [Fetch (TOKEN_ENDPOINT env)
               [(''grant_type'', ''authorization_code''),
                (''client_id'', CLIENT_ID env),
                (''client_secret'', CLIENT_SECRET env),
                (''redirect_uri'', REDIRECT_URI env),
                (''code'', code)]]\<rparr>)
       \<and> handleRequest P env reqR w =
           (Inr \<lparr>status = up_status refreshResponse, body = Some (up_statusText refreshResponse),
                 headers = [(''Access-Control-Allow-Origin'', PLUGIN_URI env)]\<rparr>,
            w\<lparr>trace := trace w @ [Fetch (TOKEN_ENDPOINT env)
               [(''grant_type'', ''refresh_token''),
                (''client_id'', CLIENT_ID env),
                (''client_secret'', CLIENT_SECRET env),
                (''redirect_uri'', REDIRECT_URI env),
                (''refresh_token'', refreshToken)]]\<rparr>)"
proof
  show "handleRequest P env reqC w =
           (Inr \<lparr>status = up_status tokenResponse, body = Some (up_statusText tokenResponse),
                 headers = []\<rparr>,
            w\<lparr>trace := trace w @ [Fetch (TOKEN_ENDPOINT env)
               [(''grant_type'', ''authorization_code''),
                (''client_id'', CLIENT_ID env),
                (''client_secret'', CLIENT_SECRET env),
                (''redirect_uri'', REDIRECT_URI env),
                (''code'', code)]]\<rparr>)"
    using assms(1-11)
    by (simp add: handleRequest_redirect handle_redirect_def post_form_def new_Response_ok)
  show "handleRequest P env reqR w =
           (Inr \<lparr>status = up_status refreshResponse, body = Some (up_statusText refreshResponse),
                 headers = [(''Access-Control-Allow-Origin'', PLUGIN_URI env)]\<rparr>,
            w\<lparr>trace := trace w @ [Fetch (TOKEN_ENDPOINT env)
               [(''grant_type'', ''refresh_token''),
                (''client_id'', CLIENT_ID env),
                (''client_secret'', CLIENT_SECRET env),
                (''redirect_uri'', REDIRECT_URI env),
                (''refresh_token'', refreshToken)]]\<rparr>)"
    using assms(12-20)
    by (simp add: handleRequest_refresh handle_refresh_def post_form_def new_Response_ok)
qed

theorem upstream_failure_passthrough_witness:
  "handleRequest ex_platform ex_env
     (ex_request ''GET'' ''/auth/redirect'' [(''code'', ''stale''), (''state'', ''W1'')]) ex_world_ticket
   = (Inr \<lparr>status = 401, body = Some ''Unauthorized'', headers = []\<rparr>,
      ex_world_ticket\<lparr>trace := [Fetch ''https://idp.test/token''
        [(''grant_type'', ''authorization_code''), (''client_id'', ''cid''),
         (''client_secret'', ''s3cret''),
         (''redirect_uri'', ''https://relay.test/auth/redirect''), (''code'', ''stale'')]]\<rparr>)
   \<and> handleRequest ex_platform ex_env
     (ex_request ''POST'' ''/auth/refresh'' [(''code'', ''stale'')]) ex_world_ticket
   = (Inr \<lparr>status = 401, body = Some ''Unauthorized'',
           headers = [(''Access-Control-Allow-Origin'', ''https://plugin.test'')]\<rparr>,
      ex_world_ticket\<lparr>trace := [Fetch ''https://idp.test/token''
        [(''grant_type'', ''refresh_token''), (''client_id'', ''cid''),
         (''client_secret'', ''s3cret''),
         (''redirect_uri'', ''https://relay.test/auth/redirect''),
         (''refresh_token'', ''stale'')]]\<rparr>)"
  using upstream_failure_passthrough
    [of "ex_request ''GET'' ''/auth/redirect'' [(''code'', ''stale''), (''state'', ''W1'')]"
        "''stale''" "''W1''" ex_platform ex_env
        "\<lparr>up_status = 401, up_statusText = ''Unauthorized'', up_text = ''invalid_grant'',
          up_json = Inl (JsError ''Unexpected token i in JSON at position 0'')\<rparr>"
        "ex_request ''POST'' ''/auth/refresh'' [(''code'', ''stale'')]" "''stale''"
        "\<lparr>up_status = 401, up_statusText = ''Unauthorized'', up_text = ''invalid_grant'',
          up_json = Inl (JsError ''Unexpected token i in JSON at position 0'')\<rparr>"
        ex_world_ticket]
  by (simp add: ex_request_def ex_env_def ex_platform_def ex_upstream_def ex_world_ticket_def
      ex_world_def searchParams_get_def null_body_status_def)

text \<open>
  The claim's own example fails: a 401 whose body is \<^verbatim>\<open>invalid_grant\<close> is surfaced with the
  status text \<^verbatim>\<open>Unauthorized\<close> as the body, on both routes.
\<close>

theorem upstream_failure_passthrough_counterexample:
  "upstream ex_platform (TOKEN_ENDPOINT ex_env)
     [(''grant_type'', ''authorization_code''), (''client_id'', CLIENT_ID ex_env),
      (''client_secret'', CLIENT_SECRET ex_env), (''redirect_uri'', REDIRECT_URI ex_env),
      (''code'', ''stale'')]
   = Inr \<lparr>up_status = 401, up_statusText = ''Unauthorized'', up_text = ''invalid_grant'',
          up_json = Inl (JsError ''Unexpected token i in JSON at position 0'')\<rparr>
   \<and> fst (fetch ex_platform ex_env
       (ex_request ''GET'' ''/auth/redirect'' [(''code'', ''stale''), (''state'', ''W1'')])
       ex_world_ticket)
     = Inr \<lparr>status = 401, body = Some ''Unauthorized'', headers = []\<rparr>
   \<and> fst (fetch ex_platform ex_env
       (ex_request ''POST'' ''/auth/refresh'' [(''code'', ''stale'')]) ex_world_ticket)
     = Inr \<lparr>status = 401, body = Some ''Unauthorized'',
            headers = [(''Access-Control-Allow-Origin'', ''https://plugin.test'')]\<rparr>
   \<and> Some ''Unauthorized'' \<noteq> Some ''invalid_grant''"
  by (simp add: ex_request_def ex_env_def ex_platform_def ex_upstream_def ex_world_ticket_def
      ex_world_def fetch_def handleRequest_def handle_redirect_def handle_refresh_def
      searchParams_get_def post_form_def new_Response_def null_body_status_def)

text \<open>
  A null-body status that comes with a status text is not passed through either: the
  constructor rejects the status text as a body, and the catch-all answers 500.
\<close>

lemma null_body_status_rejected:
  "fst (handleRequest ex_platform ex_env
       (ex_request ''POST'' ''/auth/refresh'' [(''code'', ''empty'')]) ex_world)
     = Inl (JsError ''Response with null body status (101, 204, 205, or 304) cannot have a body.'')
   \<and> fst (fetch ex_platform ex_env
       (ex_request ''POST'' ''/auth/refresh'' [(''code'', ''empty'')]) ex_world)
     = Inr \<lparr>status = 500,
         body = Some (internal_error_prefix
           @ ''Response with null body status (101, 204, 205, or 304) cannot have a body.''),
         headers = [(''Access-Control-Allow-Origin'', ''https://plugin.test'')]\<rparr>"
  by (simp add: ex_request_def ex_env_def ex_platform_def ex_upstream_def
      ex_world_def fetch_def handleRequest_def handle_refresh_def
      searchParams_get_def post_form_def new_Response_def null_body_status_def)

section \<open>The round trip\<close>

text \<open>
  Claim C3, as the code has it. Let the ticket \<^verbatim>\<open>readKey:{writeKey}\<close> hold a non-empty read
  key and let the exchange answer 200 with a JSON body. Then the callback answers with the
  confirmation page; a poll for the read key made before the bundle's 300 seconds are over
  returns the bundle as \<^verbatim>\<open>JSON.stringify\<close> printed it; and the next poll, at any time,
  answers 404.
\<close>

theorem round_trip_within_ttl:
  assumes "req_method reqC = ''GET''" and "prefix ''/auth/redirect'' (pathname reqC)"
    and "searchParams_get reqC ''code'' = Some code" and "code \<noteq> []"
    and "searchParams_get reqC ''state'' = Some writeKey" and "writeKey \<noteq> []"
    and "store_lookup w (''readKey:'' @ writeKey) = Some readKey" and "readKey \<noteq> []"
    and "upstream P (TOKEN_ENDPOINT env)
           [(''grant_type'', ''authorization_code''),
            (''client_id'', CLIENT_ID env),
            (''client_secret'', CLIENT_SECRET env),
            (''redirect_uri'', REDIRECT_URI env),
            (''code'', code)] = Inr tokenResponse"
    and "up_status tokenResponse = 200" and "up_json tokenResponse = Inr tokens"
    and "req_method reqP = ''POST''" and "prefix ''/auth/poll'' (pathname reqP)"
    and "searchParams_get reqP ''readKey'' = Some readKey"
    and "handleRequest P env reqC w = (res1, w1)"
    and "t1 < clock w + 300"
    and "handleRequest P env reqP (w1\<lparr>clock := t1\<rparr>) = (res2, w2)"
    and "handleRequest P env reqP (w2\<lparr>clock := t2\<rparr>) = (res3, w3)"
  shows "res1 = Inr \<lparr>status = 200,
           body = Some (htmlTemplate P
             ''Authentication successful! You can close this window and return to Framer.''),
           headers = [(''Content-Type'', ''text/html'')]\<rparr>
       \<and> res2 = Inr \<lparr>status = 200, body = Some (JSON_stringify tokens),
           headers = [(''Content-Type'', ''application/json''),
                      (''Access-Control-Allow-Origin'', PLUGIN_URI env)]\<rparr>
       \<and> res3 = Inr \<lparr>status = 404, body = None,
           headers = [(''Access-Control-Allow-Origin'', PLUGIN_URI env)]\<rparr>"
proof -
  let ?key = "''tokens:'' @ readKey"
  have cb: "handle_redirect P env reqC w = (res1, w1)"
    using assms(1,2,15) by (simp add: handleRequest_redirect)
  have res1: "res1 = Inr \<lparr>status = 200,
           body = Some (htmlTemplate P
             ''Authentication successful! You can close this window and return to Framer.''),
           headers = [(''Content-Type'', ''text/html'')]\<rparr>"
    and w1: "store w1 = (store w)(?key \<mapsto> (JSON_stringify tokens, clock w + 300))"
    using cb assms(3-11)
    by (auto simp: handle_redirect_def post_form_def kv_get_def kv_put_def Let_def
        simp del: JSON_stringify.simps)
  have live: "store_lookup (w1\<lparr>clock := t1\<rparr>) ?key = Some (JSON_stringify tokens)"
    using w1 assms(16) by (simp add: store_lookup_def)
  have p1: "handle_poll env reqP (w1\<lparr>clock := t1\<rparr>) = (res2, w2)"
    using assms(12,13,17) by (simp add: handleRequest_poll)
  have res2: "res2 = Inr \<lparr>status = 200, body = Some (JSON_stringify tokens),
           headers = [(''Content-Type'', ''application/json''),
                      (''Access-Control-Allow-Origin'', PLUGIN_URI env)]\<rparr>"
    and w2: "store w2 ?key = None"
    using p1 live assms(8,14) JSON_stringify_nonempty [of tokens]
    by (auto simp: handle_poll_def kv_get_def kv_delete_def Let_def
        simp del: JSON_stringify.simps)
  have "fst (handle_poll env reqP (w2\<lparr>clock := t2\<rparr>)) =
      Inr \<lparr>status = 404, body = None,
           headers = [(''Access-Control-Allow-Origin'', PLUGIN_URI env)]\<rparr>"
    using assms(14,8) w2 by (intro handle_poll_absent) simp_all
  then have res3: "res3 = Inr \<lparr>status = 404, body = None,
           headers = [(''Access-Control-Allow-Origin'', PLUGIN_URI env)]\<rparr>"
    using assms(12,13,18) by (simp add: handleRequest_poll)
  from res1 res2 res3 show ?thesis by simp
qed


theorem round_trip_within_ttl_witness:
  "fst (handleRequest ex_platform ex_env
          (ex_request ''POST'' ''/auth/poll'' [(''readKey'', ''R1'')])
          (snd (handleRequest ex_platform ex_env
                  (ex_request ''GET'' ''/auth/redirect'' [(''code'', ''abc''), (''state'', ''W1'')])
                  ex_world_ticket)
             \<lparr>clock := 1299\<rparr>))
   = Inr \<lparr>status = 200, body = Some (JSON_stringify ex_bundle),
          headers = [(''Content-Type'', ''application/json''),
                     (''Access-Control-Allow-Origin'', ''https://plugin.test'')]\<rparr>
   \<and> fst (handleRequest ex_platform ex_env
          (ex_request ''POST'' ''/auth/poll'' [(''readKey'', ''R1'')])
          (snd (handleRequest ex_platform ex_env
                  (ex_request ''POST'' ''/auth/poll'' [(''readKey'', ''R1'')])
                  (snd (handleRequest ex_platform ex_env
                          (ex_request ''GET'' ''/auth/redirect''
                             [(''code'', ''abc''), (''state'', ''W1'')])
                          ex_world_ticket)
                     \<lparr>clock := 1299\<rparr>))
             \<lparr>clock := 1299\<rparr>))
   = Inr \<lparr>status = 404, body = None,
          headers = [(''Access-Control-Allow-Origin'', ''https://plugin.test'')]\<rparr>"
proof -
  let ?reqC = "ex_request ''GET'' ''/auth/redirect'' [(''code'', ''abc''), (''state'', ''W1'')]"
  let ?reqP = "ex_request ''POST'' ''/auth/poll'' [(''readKey'', ''R1'')]"
  let ?w1 = "snd (handleRequest ex_platform ex_env ?reqC ex_world_ticket)"
  let ?w2 = "snd (handleRequest ex_platform ex_env ?reqP (?w1\<lparr>clock := 1299\<rparr>))"
  have ticket: "store_lookup ex_world_ticket (''readKey:'' @ ''W1'') = Some ''R1''"
    by (simp add: ex_world_ticket_def ex_world_def store_lookup_def)
  have exchange: "upstream ex_platform (TOKEN_ENDPOINT ex_env)
      [(''grant_type'', ''authorization_code''), (''client_id'', CLIENT_ID ex_env),
       (''client_secret'', CLIENT_SECRET ex_env), (''redirect_uri'', REDIRECT_URI ex_env),
       (''code'', ''abc'')]
    = Inr \<lparr>up_status = 200, up_statusText = ''OK'', up_text = JSON_stringify ex_bundle,
           up_json = Inr ex_bundle\<rparr>"
    by (simp add: ex_platform_def ex_upstream_def del: JSON_stringify.simps)
  have time: "(1299::nat) < clock ex_world_ticket + 300"
    by (simp add: ex_world_ticket_def ex_world_def)
  from round_trip_within_ttl
    [of ?reqC "''abc''" "''W1''" ex_world_ticket "''R1''" ex_platform ex_env _ ex_bundle ?reqP
        "fst (handleRequest ex_platform ex_env ?reqC ex_world_ticket)" ?w1 1299
        "fst (handleRequest ex_platform ex_env ?reqP (?w1\<lparr>clock := 1299\<rparr>))" ?w2 1299
        "fst (handleRequest ex_platform ex_env ?reqP (?w2\<lparr>clock := 1299\<rparr>))"
        "snd (handleRequest ex_platform ex_env ?reqP (?w2\<lparr>clock := 1299\<rparr>))",
      OF _ _ _ _ _ _ ticket _ exchange _ _ _ _ _ _ time]
  show ?thesis
    by (simp add: ex_request_def ex_env_def searchParams_get_def del: JSON_stringify.simps)
qed

text \<open>
  The claim as stated fails for a poll that comes 300 seconds after the callback: the
  bundle has expired and the poll answers 404.
\<close>

theorem round_trip_counterexample:
  "fst (handleRequest ex_platform ex_env
          (ex_request ''GET'' ''/auth/redirect'' [(''code'', ''abc''), (''state'', ''W1'')])
          ex_world_ticket)
   = Inr \<lparr>status = 200,
       body = Some (htmlTemplate ex_platform
         ''Authentication successful! You can close this window and return to Framer.''),
       headers = [(''Content-Type'', ''text/html'')]\<rparr>
   \<and> fst (handleRequest ex_platform ex_env
          (ex_request ''POST'' ''/auth/poll'' [(''readKey'', ''R1'')])
          (snd (handleRequest ex_platform ex_env
                  (ex_request ''GET'' ''/auth/redirect'' [(''code'', ''abc''), (''state'', ''W1'')])
                  ex_world_ticket)
             \<lparr>clock := clock ex_world_ticket + 300\<rparr>))
   = Inr \<lparr>status = 404, body = None,
          headers = [(''Access-Control-Allow-Origin'', ''https://plugin.test'')]\<rparr>"
  by (simp add: ex_request_def ex_env_def ex_platform_def ex_upstream_def ex_world_ticket_def
      ex_world_def handleRequest_def handle_redirect_def handle_poll_def searchParams_get_def
      post_form_def kv_get_def kv_put_def store_lookup_def del: JSON_stringify.simps)

end
